theory Spec2Isabelle
  imports Complex_Main "HOL-Library.Word"
begin

section \<open>Dynamic values\<close>

text \<open>
  The validator of \<^verbatim>\<open>main.go\<close> works on Go values of type \<^verbatim>\<open>interface{}\<close>. The
  datatype below has one constructor for each dynamic type the code tells apart with a
  type assertion, a type switch or \<^verbatim>\<open>reflect\<close>:
  \<^item> \<open>VNil\<close> is the nil interface (JSON \<^verbatim>\<open>null\<close>);
  \<^item> \<open>VInt\<close>, \<open>VInt32\<close>, \<open>VInt64\<close> are \<^verbatim>\<open>int\<close>, \<^verbatim>\<open>int32\<close>, \<^verbatim>\<open>int64\<close>;
  \<^item> \<open>VFloat32\<close>, \<open>VFloat64\<close> are \<^verbatim>\<open>float32\<close>, \<^verbatim>\<open>float64\<close>, carried by the number they
    denote (the validator never reads the payload; a JSON number decodes to \<open>VFloat64\<close>);
  \<^item> \<open>VSlice\<close> is a value whose reflected kind is a slice (\<^verbatim>\<open>[]interface{}\<close>, \<^verbatim>\<open>primitive.A\<close>);
  \<^item> \<open>VMap\<close> is \<^verbatim>\<open>map[string]interface{}\<close>, as an association list: the order of the list
    is the order in which one run of \<^verbatim>\<open>range\<close> visits the entries, a lookup is \<open>map_of\<close>;
  \<^item> \<open>VBsonM\<close> is \<^verbatim>\<open>bson.M\<close>, a named type distinct from \<^verbatim>\<open>map[string]interface{}\<close>;
  \<^item> \<open>VTime\<close>, \<open>VDateTime\<close>, \<open>VTimestamp\<close> are \<^verbatim>\<open>time.Time\<close>, \<^verbatim>\<open>primitive.DateTime\<close>
    and \<^verbatim>\<open>primitive.Timestamp\<close>;
  \<^item> \<open>VOther\<close> is a value of any other dynamic type, of a kind that is not a slice.
\<close>

datatype val =
    VNil
  | VString string
  | VBool bool
  | VInt "64 word"
  | VInt32 "32 word"
  | VInt64 "64 word"
  | VFloat32 real
  | VFloat64 real
  | VSlice "val list"
  | VMap "(string \<times> val) list"
  | VBsonM "(string \<times> val) list"
  | VTime int
  | VDateTime "64 word"
  | VTimestamp "32 word" "32 word"
  | VOther

text \<open>
  The result of a call: \<open>Ok\<close> is the nil error, \<open>Err m\<close> is the error made by
  \<^verbatim>\<open>fmt.Errorf\<close> with message \<open>m\<close>, \<open>Panic\<close> is a run-time panic.
\<close>

datatype outcome = Ok | Err string | Panic

section \<open>The standard library, as far as the validator calls it\<close>

text \<open>
  Two functions of Go's standard library decide a branch of the validator. They are not code
  of the repository, so they are parameters of the model:
  \<open>time_Parse lib layout s\<close> holds when \<^verbatim>\<open>time.Parse(layout, s)\<close> returns a nil error,
  \<open>strconv_ParseInt lib s\<close> holds when \<^verbatim>\<open>strconv.ParseInt(s, 10, 64)\<close> returns a nil error.
\<close>

record stdlib =
  time_Parse :: "string \<Rightarrow> string \<Rightarrow> bool"
  strconv_ParseInt :: "string \<Rightarrow> bool"

definition RFC3339 :: string where
  "RFC3339 = ''2006-01-02T15:04:05Z07:00''"

definition RFC3339Nano :: string where
  "RFC3339Nano = ''2006-01-02T15:04:05.999999999Z07:00''"

text \<open>\<^verbatim>\<open>reflect.TypeOf(value).Kind()\<close>: \<^verbatim>\<open>TypeOf(nil)\<close> is the nil \<^verbatim>\<open>Type\<close>, and calling
  \<^verbatim>\<open>Kind\<close> on it panics, which is the result \<open>None\<close>.\<close>

datatype Kind = KindBool | KindInt | KindInt32 | KindInt64 | KindFloat32 | KindFloat64
  | KindString | KindSlice | KindMap | KindStruct | KindOther

fun reflect_TypeOf_Kind :: "val \<Rightarrow> Kind option" where
  "reflect_TypeOf_Kind VNil = None"
| "reflect_TypeOf_Kind (VString _) = Some KindString"
| "reflect_TypeOf_Kind (VBool _) = Some KindBool"
| "reflect_TypeOf_Kind (VInt _) = Some KindInt"
| "reflect_TypeOf_Kind (VInt32 _) = Some KindInt32"
| "reflect_TypeOf_Kind (VInt64 _) = Some KindInt64"
| "reflect_TypeOf_Kind (VFloat32 _) = Some KindFloat32"
| "reflect_TypeOf_Kind (VFloat64 _) = Some KindFloat64"
| "reflect_TypeOf_Kind (VSlice _) = Some KindSlice"
| "reflect_TypeOf_Kind (VMap _) = Some KindMap"
| "reflect_TypeOf_Kind (VBsonM _) = Some KindMap"
| "reflect_TypeOf_Kind (VTime _) = Some KindStruct"
| "reflect_TypeOf_Kind (VDateTime _) = Some KindInt64"
| "reflect_TypeOf_Kind (VTimestamp _ _) = Some KindStruct"
| "reflect_TypeOf_Kind VOther = Some KindOther"

section \<open>Error messages\<close>

abbreviation apos :: string where
  "apos \<equiv> [CHR 0x27]"

text \<open>\<^verbatim>\<open>fmt.Errorf("field '%s' <what>", fieldName)\<close>\<close>

definition fieldError :: "string \<Rightarrow> string \<Rightarrow> outcome" where
  "fieldError fieldName what = Err (''field '' @ apos @ fieldName @ apos @ '' '' @ what)"

section \<open>isValidISODateString\<close>

definition layouts :: "string list" where
  "layouts =
     [RFC3339,
      RFC3339Nano,
      ''2006-01-02'',
      ''2006-01-02 15:04:05'',
      ''2006-01-02T15:04:05'',
      ''2006-01-02T15:04:05Z07:00'']"

text \<open>The loop over the layouts: the first layout that parses returns true.\<close>

primrec tryLayouts :: "stdlib \<Rightarrow> string list \<Rightarrow> string \<Rightarrow> bool" where
  "tryLayouts lib [] s = False"
| "tryLayouts lib (layout # rest) s =
     (if time_Parse lib layout s then True else tryLayouts lib rest s)"

definition isValidISODateString :: "stdlib \<Rightarrow> string \<Rightarrow> bool" where
  "isValidISODateString lib s = tryLayouts lib layouts s"

section \<open>validateFieldType\<close>

definition validateFieldType :: "stdlib \<Rightarrow> string \<Rightarrow> val \<Rightarrow> string \<Rightarrow> outcome" where
  "validateFieldType lib fieldName value expectedType =
     (if value = VNil then
        (if expectedType = ''null'' then Ok
         else fieldError fieldName ''must not be null'')
      else if expectedType = ''string'' then
        (case value of VString _ \<Rightarrow> Ok
         | _ \<Rightarrow> fieldError fieldName ''must be a string'')
      else if expectedType = ''number'' then
        (case value of
           VInt _ \<Rightarrow> Ok | VInt32 _ \<Rightarrow> Ok | VInt64 _ \<Rightarrow> Ok
         | VFloat32 _ \<Rightarrow> Ok | VFloat64 _ \<Rightarrow> Ok
         | _ \<Rightarrow> fieldError fieldName ''must be a number'')
      else if expectedType = ''double'' then
        (case value of
           VFloat32 _ \<Rightarrow> Ok | VFloat64 _ \<Rightarrow> Ok
         | _ \<Rightarrow> fieldError fieldName ''must be a double (floating-point)'')
      else if expectedType = ''boolean'' \<or> expectedType = ''bool'' then
        (case value of VBool _ \<Rightarrow> Ok
         | _ \<Rightarrow> fieldError fieldName ''must be a boolean'')
      else if expectedType = ''array'' then
        (case reflect_TypeOf_Kind value of
           None \<Rightarrow> Panic
         | Some k \<Rightarrow>
             if k \<noteq> KindSlice then fieldError fieldName ''must be an array'' else Ok)
      else if expectedType = ''object'' then
        (case value of VMap _ \<Rightarrow> Ok
         | _ \<Rightarrow> fieldError fieldName ''must be an object'')
      else if expectedType = ''null'' then
        fieldError fieldName ''must be null''
      else if expectedType = ''date'' then
        (case value of
           VTime _ \<Rightarrow> Ok
         | VDateTime _ \<Rightarrow> Ok
         | VString v \<Rightarrow>
             if \<not> isValidISODateString lib v
             then fieldError fieldName ''must be a valid ISO date string (e.g., RFC3339)''
             else Ok
         | _ \<Rightarrow> fieldError fieldName
                  ''must be a date (time.Time, primitive.DateTime, or ISO string)'')
      else if expectedType = ''timestamp'' then
        (case value of
           VTimestamp _ _ \<Rightarrow> Ok
         | VInt _ \<Rightarrow> Ok | VInt32 _ \<Rightarrow> Ok | VInt64 _ \<Rightarrow> Ok
         | VFloat64 _ \<Rightarrow> Ok | VFloat32 _ \<Rightarrow> Ok
         | VString v \<Rightarrow>
             if \<not> strconv_ParseInt lib v
             then fieldError fieldName
                    ''must be a numeric string representing a timestamp''
             else Ok
         | _ \<Rightarrow> fieldError fieldName
                  ''must be a timestamp (integer, numeric string, or primitive.Timestamp)'')
      else Ok)"

section \<open>validateDataAgainstSchema\<close>

text \<open>The comma-ok type assertions on a map entry: a missing key reads as nil, and a failed
  assertion leaves the zero value.\<close>

definition assertBool :: "val option \<Rightarrow> bool" where
  "assertBool x = (case x of Some (VBool b) \<Rightarrow> b | _ \<Rightarrow> False)"

definition assertString :: "val option \<Rightarrow> string" where
  "assertString x = (case x of Some (VString s) \<Rightarrow> s | _ \<Rightarrow> [])"

definition assertMap :: "val option \<Rightarrow> (string \<times> val) list option" where
  "assertMap x = (case x of Some (VMap m) \<Rightarrow> Some m | _ \<Rightarrow> None)"

text \<open>The choice of the nested schema: \<^verbatim>\<open>properties\<close> when it is a map, otherwise
  \<^verbatim>\<open>schema\<close> when it is a map, otherwise none (the variable stays nil). A map that a
  decoder builds is never the nil map, so a map found here is taken as not nil.\<close>

definition nestedSchemaOf :: "(string \<times> val) list \<Rightarrow> (string \<times> val) list option" where
  "nestedSchemaOf fieldInfo =
     (case assertMap (map_of fieldInfo ''properties'') of
        Some ns \<Rightarrow> Some ns
      | None \<Rightarrow> assertMap (map_of fieldInfo ''schema''))"

text \<open>The data for the nested call: a \<^verbatim>\<open>map[string]interface{}\<close>, or a \<^verbatim>\<open>bson.M\<close>
  converted to one; anything else has none.\<close>

definition nestedDataOf :: "val \<Rightarrow> (string \<times> val) list option" where
  "nestedDataOf value =
     (case value of VMap objMap \<Rightarrow> Some objMap | VBsonM bm \<Rightarrow> Some bm | _ \<Rightarrow> None)"

lemma map_of_size_less:
  "map_of xs k = Some v \<Longrightarrow> size v < size (VMap xs)"
  by (induction xs) (auto split: if_splits)

lemma nestedSchemaOf_size_less:
  "nestedSchemaOf fieldInfo = Some ns \<Longrightarrow> size (VMap ns) < size (VMap fieldInfo)"
  by (auto simp: nestedSchemaOf_def assertMap_def
           split: option.splits val.splits dest: map_of_size_less)

function validateDataAgainstSchema ::
  "stdlib \<Rightarrow> (string \<times> val) list \<Rightarrow> (string \<times> val) list \<Rightarrow> outcome" where
  "validateDataAgainstSchema lib data [] = Ok"
| "validateDataAgainstSchema lib data ((field, fieldSchema) # rest) =
     (case assertMap (Some fieldSchema) of
        None \<Rightarrow> validateDataAgainstSchema lib data rest
      | Some fieldInfo \<Rightarrow>
          let required = assertBool (map_of fieldInfo ''required'');
              fieldType = assertString (map_of fieldInfo ''type'')
          in
          (case map_of data field of
             None \<Rightarrow>
               if required
               then Err (''required field '' @ apos @ field @ apos @ '' is missing'')
               else validateDataAgainstSchema lib data rest
           | Some value \<Rightarrow>
               (case validateFieldType lib field value fieldType of
                  Panic \<Rightarrow> Panic
                | Err err \<Rightarrow> Err err
                | Ok \<Rightarrow>
                    if fieldType = ''object'' then
                      (case nestedSchemaOf fieldInfo of
                         None \<Rightarrow> validateDataAgainstSchema lib data rest
                       | Some nestedSchema \<Rightarrow>
                           (case nestedDataOf value of
                              None \<Rightarrow>
                                fieldError field ''must be an object for nested validation''
                            | Some nestedData \<Rightarrow>
                                (case validateDataAgainstSchema lib nestedData nestedSchema of
                                   Panic \<Rightarrow> Panic
                                 | Err err \<Rightarrow>
                                     Err (''object field '' @ apos @ field @ apos @
                                          '' validation failed: '' @ err)
                                 | Ok \<Rightarrow> validateDataAgainstSchema lib data rest)))
                    else validateDataAgainstSchema lib data rest)))"
  by pat_completeness auto
termination
proof (relation "measure (\<lambda>(lib, data, schema). size (VMap schema))")
  show "wf (measure (\<lambda>(lib, data, schema). size (VMap schema)))" by simp
qed (auto simp: assertMap_def split: val.splits dest!: nestedSchemaOf_size_less)

text \<open>The loop body for one schema entry: \<open>Ok\<close> means that the loop goes on to the
  next entry.\<close>

definition validateEntry :: "stdlib \<Rightarrow> (string \<times> val) list \<Rightarrow> string \<Rightarrow> val \<Rightarrow> outcome" where
  "validateEntry lib data field fieldSchema =
     validateDataAgainstSchema lib data [(field, fieldSchema)]"

section \<open>A reference instance of the standard library\<close>

text \<open>
  The theorems below hold for every \<open>stdlib\<close>. To run the validator on concrete inputs, one
  instance is fixed here. \<open>parseIntModel\<close> follows \<^verbatim>\<open>strconv.ParseInt(s, 10, 64)\<close>: an
  optional sign, at least one decimal digit, nothing else, and a value in the range of
  \<^verbatim>\<open>int64\<close>. \<open>timeParseModel\<close> checks the shape a layout asks for (digit groups, literal
  characters, an optional fraction of a second, \<^verbatim>\<open>Z\<close> or a numeric zone offset); the range
  checks of \<^verbatim>\<open>time.Parse\<close> (month, day, hour, ...) and its leniencies are left out. Only
  the examples run on this instance.
\<close>

definition isDigit :: "char \<Rightarrow> bool" where
  "isDigit c = (c \<in> set ''0123456789'')"

definition digitsValue :: "string \<Rightarrow> int" where
  "digitsValue ds = foldl (\<lambda>n c. 10 * n + (of_char c - 48)) 0 ds"

definition parseIntModel :: "string \<Rightarrow> bool" where
  "parseIntModel s =
     (case s of
        [] \<Rightarrow> False
      | c # cs \<Rightarrow>
          let neg = (c = CHR ''-'');
              ds = (if c = CHR ''+'' \<or> c = CHR ''-'' then cs else s)
          in ds \<noteq> [] \<and> list_all isDigit ds \<and>
             (if neg then digitsValue ds \<le> 9223372036854775808
              else digitsValue ds < 9223372036854775808))"

datatype chunk = Digits nat | Literal char | ZoneOffset | Fraction

fun layoutChunks :: "nat \<Rightarrow> string \<Rightarrow> chunk list" where
  "layoutChunks skip [] = []"
| "layoutChunks (Suc skip) (c # cs) = layoutChunks skip cs"
| "layoutChunks 0 (c # cs) =
     (if take 4 (c # cs) = ''2006'' then Digits 4 # layoutChunks 3 cs
      else if take 2 (c # cs) \<in> set [''01'', ''02'', ''15'', ''04'', ''05'']
        then Digits 2 # layoutChunks 1 cs
      else if take 6 (c # cs) = ''Z07:00'' then ZoneOffset # layoutChunks 5 cs
      else if take 10 (c # cs) = ''.999999999'' then Fraction # layoutChunks 9 cs
      else Literal c # layoutChunks 0 cs)"

fun matchChunks :: "chunk list \<Rightarrow> string \<Rightarrow> bool" where
  "matchChunks [] v = (v = [])"
| "matchChunks (Digits n # cs) v =
     (n \<le> length v \<and> list_all isDigit (take n v) \<and> matchChunks cs (drop n v))"
| "matchChunks (Literal c # cs) v =
     (case v of [] \<Rightarrow> False | d # v' \<Rightarrow> d = c \<and> matchChunks cs v')"
| "matchChunks (ZoneOffset # cs) v =
     (if take 1 v = ''Z'' then matchChunks cs (drop 1 v)
      else 6 \<le> length v \<and> (take 1 v = ''+'' \<or> take 1 v = ''-'') \<and>
           list_all isDigit (take 2 (drop 1 v)) \<and> take 1 (drop 3 v) = '':'' \<and>
           list_all isDigit (take 2 (drop 4 v)) \<and> matchChunks cs (drop 6 v))"
| "matchChunks (Fraction # cs) v =
     (if 2 \<le> length v \<and> take 1 v = ''.'' \<and> list_all isDigit (take 1 (drop 1 v))
      then matchChunks cs (dropWhile isDigit (drop 1 v))
      else matchChunks cs v)"

definition timeParseModel :: "string \<Rightarrow> string \<Rightarrow> bool" where
  "timeParseModel layout s = matchChunks (layoutChunks 0 layout) s"

definition refStdlib :: stdlib where
  "refStdlib = \<lparr> time_Parse = timeParseModel, strconv_ParseInt = parseIntModel \<rparr>"

section \<open>Conformance, in the words of the specification\<close>

text \<open>
  The definitions of this section follow the specification, not the code; they state what
  the code is compared with, and carry the prefix \<open>spec_\<close>.

  The specification's \<open>classify(value, expectedKind)\<close>, clause by clause: a null value is
  accepted for the kind \<^verbatim>\<open>null\<close> only, and that kind accepts nothing else; \<^verbatim>\<open>string\<close>
  takes a string, \<^verbatim>\<open>number\<close> an integer or a float, \<^verbatim>\<open>double\<close> a float, \<^verbatim>\<open>boolean\<close> or
  \<^verbatim>\<open>bool\<close> a boolean, \<^verbatim>\<open>array\<close> an array, \<^verbatim>\<open>object\<close> an object, \<^verbatim>\<open>date\<close> a native temporal
  value or a string that one of the accepted layouts parses, \<^verbatim>\<open>timestamp\<close> a native store
  timestamp, an integer, a float or a string that parses as a base-10 integer. A kind outside
  this list classifies nothing.
\<close>

definition spec_isInteger :: "val \<Rightarrow> bool" where
  "spec_isInteger v =
     (case v of VInt _ \<Rightarrow> True | VInt32 _ \<Rightarrow> True | VInt64 _ \<Rightarrow> True | _ \<Rightarrow> False)"

definition spec_isFloat :: "val \<Rightarrow> bool" where
  "spec_isFloat v = (case v of VFloat32 _ \<Rightarrow> True | VFloat64 _ \<Rightarrow> True | _ \<Rightarrow> False)"

definition spec_isNativeTemporal :: "val \<Rightarrow> bool" where
  "spec_isNativeTemporal v = (case v of VTime _ \<Rightarrow> True | VDateTime _ \<Rightarrow> True | _ \<Rightarrow> False)"

definition spec_matchesLayout :: "stdlib \<Rightarrow> val \<Rightarrow> bool" where
  "spec_matchesLayout lib v =
     (case v of VString s \<Rightarrow> list_ex (\<lambda>layout. time_Parse lib layout s) layouts
      | _ \<Rightarrow> False)"

definition spec_classify :: "stdlib \<Rightarrow> val \<Rightarrow> string \<Rightarrow> bool" where
  "spec_classify lib v expectedKind =
     (if v = VNil then expectedKind = ''null''
      else if expectedKind = ''null'' then False
      else if expectedKind = ''string'' then (case v of VString _ \<Rightarrow> True | _ \<Rightarrow> False)
      else if expectedKind = ''number'' then spec_isInteger v \<or> spec_isFloat v
      else if expectedKind = ''double'' then spec_isFloat v
      else if expectedKind = ''boolean'' \<or> expectedKind = ''bool''
        then (case v of VBool _ \<Rightarrow> True | _ \<Rightarrow> False)
      else if expectedKind = ''array'' then (case v of VSlice _ \<Rightarrow> True | _ \<Rightarrow> False)
      else if expectedKind = ''object'' then (case v of VMap _ \<Rightarrow> True | _ \<Rightarrow> False)
      else if expectedKind = ''date'' then spec_isNativeTemporal v \<or> spec_matchesLayout lib v
      else if expectedKind = ''timestamp'' then
        (case v of VTimestamp _ _ \<Rightarrow> True
         | VString s \<Rightarrow> strconv_ParseInt lib s
         | _ \<Rightarrow> spec_isInteger v \<or> spec_isFloat v)
      else False)"

text \<open>
  The specification's view of a schema entry as a SchemaNode: \<open>kind\<close> is the string under
  \<^verbatim>\<open>type\<close>, \<open>required\<close> the boolean under \<^verbatim>\<open>required\<close> with default false, \<open>nested\<close> the schema
  under \<^verbatim>\<open>properties\<close>, or else the one under \<^verbatim>\<open>schema\<close>.
\<close>

definition spec_kind :: "(string \<times> val) list \<Rightarrow> string option" where
  "spec_kind node = (case map_of node ''type'' of Some (VString k) \<Rightarrow> Some k | _ \<Rightarrow> None)"

definition spec_required :: "(string \<times> val) list \<Rightarrow> bool" where
  "spec_required node = (case map_of node ''required'' of Some (VBool b) \<Rightarrow> b | _ \<Rightarrow> False)"

definition spec_nested :: "(string \<times> val) list \<Rightarrow> (string \<times> val) list option" where
  "spec_nested node =
     (case map_of node ''properties'' of
        Some (VMap ps) \<Rightarrow> Some ps
      | _ \<Rightarrow> (case map_of node ''schema'' of Some (VMap sc) \<Rightarrow> Some sc | _ \<Rightarrow> None))"

lemma spec_nested_size_less:
  "spec_nested node = Some ns \<Longrightarrow> size (VMap ns) < size (VMap node)"
  by (auto simp: spec_nested_def split: option.splits val.splits dest: map_of_size_less)

text \<open>
  A data object satisfies a schema when every field the schema declares is either absent and
  not required, or holds a value that classifies as the declared kind and, for an object
  with a nested schema, satisfies the nested schema in turn. Entries that are not mappings
  declare nothing.
\<close>

function spec_satisfies ::
  "stdlib \<Rightarrow> (string \<times> val) list \<Rightarrow> (string \<times> val) list \<Rightarrow> bool" where
  "spec_satisfies lib d [] = True"
| "spec_satisfies lib d ((f, entry) # rest) =
     ((case entry of
         VMap node \<Rightarrow>
           (case map_of d f of
              None \<Rightarrow> \<not> spec_required node
            | Some v \<Rightarrow>
                (case spec_kind node of
                   None \<Rightarrow> False
                 | Some k \<Rightarrow>
                     spec_classify lib v k \<and>
                     (if k = ''object'' then
                        (case spec_nested node of
                           None \<Rightarrow> True
                         | Some ns \<Rightarrow>
                             (case v of VMap nd \<Rightarrow> spec_satisfies lib nd ns | _ \<Rightarrow> False))
                      else True)))
       | _ \<Rightarrow> True)
      \<and> spec_satisfies lib d rest)"
  by pat_completeness auto
termination
proof (relation "measure (\<lambda>(lib, d, schema). size (VMap schema))")
  show "wf (measure (\<lambda>(lib, d, schema). size (VMap schema)))" by simp
qed (auto dest!: spec_nested_size_less)

section \<open>Product creation\<close>

text \<open>
  \<^verbatim>\<open>CreateProduct\<close> builds the product from the request and inserts it. The identifier
  (\<^verbatim>\<open>primitive.NewObjectID().Hex()\<close>) and the two readings of the clock (\<^verbatim>\<open>time.Now()\<close>) are
  inputs; instants are integers, and the response carries them unformatted. The fields of
  the request and of the response are prefixed, since a record field is a global name.
\<close>

record Product =
  ID :: string
  Name :: string
  Description :: string
  Schema :: "(string \<times> val) list"
  CreatedAt :: int
  UpdatedAt :: int

record CreateProductRequest =
  reqName :: string
  reqDescription :: string
  reqSchema :: "(string \<times> val) list"

record ProductResponse =
  respID :: string
  respName :: string
  respDescription :: string
  respSchema :: "(string \<times> val) list"
  respCreatedAt :: int
  respUpdatedAt :: int

datatype Code = Internal | NotFound | InvalidArgument

record ProductServiceServer =
  productCollection :: "Product list"

text \<open>The document store at its interface: a collection holds one document for each
  \<^verbatim>\<open>_id\<close>, and \<^verbatim>\<open>InsertOne\<close> fails on an identifier that is already there.\<close>

definition InsertOne :: "Product list \<Rightarrow> Product \<Rightarrow> string + Product list" where
  "InsertOne coll doc =
     (if ID doc \<in> ID ` set coll then Inl ''duplicate key'' else Inr (coll @ [doc]))"

definition CreateProduct ::
  "ProductServiceServer \<Rightarrow> string \<Rightarrow> int \<Rightarrow> int \<Rightarrow> CreateProductRequest \<Rightarrow>
     ((Code \<times> string) + ProductResponse) \<times> ProductServiceServer" where
  "CreateProduct s newID now1 now2 req =
     (let product = \<lparr> ID = newID, Name = reqName req, Description = reqDescription req,
                       Schema = reqSchema req, CreatedAt = now1, UpdatedAt = now2 \<rparr>
      in case InsertOne (productCollection s) product of
           Inl err \<Rightarrow> (Inl (Internal, ''failed to create product: '' @ err), s)
         | Inr coll \<Rightarrow>
             (Inr \<lparr> respID = ID product, respName = Name product,
                    respDescription = Description product, respSchema = Schema product,
                    respCreatedAt = CreatedAt product, respUpdatedAt = UpdatedAt product \<rparr>,
              s\<lparr> productCollection := coll \<rparr>))"

section \<open>Schemas and data of the documentation's examples\<close>

definition nameEntry :: "string \<times> val" where
  "nameEntry = (''name'', VMap [(''type'', VString ''string''), (''required'', VBool True)])"

definition ageEntry :: "string \<times> val" where
  "ageEntry =
     (''age'', VMap [(''type'', VString ''number''), (''required'', VBool False),
                     (''minimum'', VFloat64 0)])"

definition interestsEntry :: "string \<times> val" where
  "interestsEntry =
     (''interests'', VMap [(''type'', VString ''array''), (''required'', VBool False),
                           (''items'', VString ''string'')])"

definition userInfoEntry :: "string \<times> val" where
  "userInfoEntry =
     (''user_info'',
      VMap [(''type'', VString ''object''), (''required'', VBool True),
            (''properties'',
             VMap [(''first_name'',
                    VMap [(''type'', VString ''string''), (''required'', VBool True)])])])"

definition datesEntries :: "(string \<times> val) list" where
  "datesEntries =
     [(''signup_date'', VMap [(''type'', VString ''date''), (''required'', VBool True)]),
      (''last_seen_ts'', VMap [(''type'', VString ''timestamp''), (''required'', VBool False)])]"

definition leadSchema :: "(string \<times> val) list" where
  "leadSchema = nameEntry # ageEntry # interestsEntry # userInfoEntry # datesEntries"

definition validLead :: "(string \<times> val) list" where
  "validLead =
     [(''name'', VString ''John Doe''),
      (''age'', VFloat64 30),
      (''interests'', VSlice [VString ''technology'', VString ''marketing'']),
      (''user_info'', VMap [(''first_name'', VString ''John'')]),
      (''signup_date'', VString ''2024-08-09T12:00:00Z''),
      (''last_seen_ts'', VString ''1691582400'')]"

text \<open>A schema that breaks every rule the documentation states for schema definitions: a
  field name that starts with \<^verbatim>\<open>$\<close> and contains a dot, an unknown type, an array without
  \<^verbatim>\<open>items\<close>, a \<^verbatim>\<open>pattern\<close> on a number.\<close>

definition malformedSchema :: "(string \<times> val) list" where
  "malformedSchema =
     [(''$bad.name'', VMap [(''type'', VString ''integer'')]),
      (''tags'', VMap [(''type'', VString ''array'')]),
      (''n'', VMap [(''type'', VString ''number''), (''pattern'', VString ''^x$'')])]"

section \<open>Basic facts about the model\<close>

lemma assertBool_iff: "assertBool x \<longleftrightarrow> x = Some (VBool True)"
  by (auto simp: assertBool_def split: option.splits val.splits)

lemma nestedSchemaOf_properties:
  "map_of info ''properties'' = Some (VMap ns) \<Longrightarrow> nestedSchemaOf info = Some ns"
  by (simp add: nestedSchemaOf_def assertMap_def)

lemma nestedSchemaOf_schema:
  "\<forall>ps. map_of info ''properties'' \<noteq> Some (VMap ps) \<Longrightarrow>
   map_of info ''schema'' = Some (VMap ns) \<Longrightarrow> nestedSchemaOf info = Some ns"
  by (auto simp: nestedSchemaOf_def assertMap_def split: option.splits val.splits)

lemma tryLayouts_iff: "tryLayouts lib ls s \<longleftrightarrow> (\<exists>l \<in> set ls. time_Parse lib l s)"
  by (induction ls) auto

lemma isValidISODateString_iff:
  "isValidISODateString lib s \<longleftrightarrow> (\<exists>l \<in> set layouts. time_Parse lib l s)"
  by (simp add: isValidISODateString_def tryLayouts_iff)

subsection \<open>validateFieldType\<close>

lemma validateFieldType_not_Panic: "validateFieldType lib f v k \<noteq> Panic"
  by (cases v) (simp_all add: validateFieldType_def fieldError_def)

lemma validateFieldType_object:
  "validateFieldType lib f v ''object'' = Ok \<longleftrightarrow> (\<exists>m. v = VMap m)"
  by (cases v) (simp_all add: validateFieldType_def fieldError_def)

lemma validateFieldType_date:
  "validateFieldType lib f v ''date'' = Ok \<longleftrightarrow>
     (\<exists>t. v = VTime t) \<or> (\<exists>t. v = VDateTime t) \<or>
     (\<exists>s. v = VString s \<and> isValidISODateString lib s)"
  by (cases v) (simp_all add: validateFieldType_def fieldError_def)

text \<open>No message of \<open>validateFieldType\<close> ends in the letters \<open>on\<close>.\<close>

lemma validateFieldType_tail:
  "case validateFieldType lib f v k of Err e \<Rightarrow> take 2 (rev e) \<noteq> ''no'' | _ \<Rightarrow> True"
  by (cases v) (simp_all add: validateFieldType_def fieldError_def)

lemma classify_Ok: "spec_classify lib v k \<longrightarrow> validateFieldType lib f v k = Ok"
  by (cases v)
     (simp_all add: spec_classify_def validateFieldType_def spec_isInteger_def
        spec_isFloat_def spec_isNativeTemporal_def spec_matchesLayout_def
        isValidISODateString_iff list_ex_iff)

subsection \<open>The loop, one entry at a time\<close>

lemma validate_Cons:
  "validateDataAgainstSchema lib data ((field, fieldSchema) # rest) =
     (case validateEntry lib data field fieldSchema of
        Ok \<Rightarrow> validateDataAgainstSchema lib data rest
      | r \<Rightarrow> r)"
  by (simp add: validateEntry_def Let_def fieldError_def split: option.splits outcome.splits)

lemma validateEntry_not_map:
  "\<forall>m. fieldSchema \<noteq> VMap m \<Longrightarrow> validateEntry lib data field fieldSchema = Ok"
  by (cases fieldSchema) (simp_all add: validateEntry_def assertMap_def)

lemma validateEntry_map:
  "validateEntry lib data field (VMap fieldInfo) =
     (case map_of data field of
        None \<Rightarrow>
          if assertBool (map_of fieldInfo ''required'')
          then Err (''required field '' @ apos @ field @ apos @ '' is missing'')
          else Ok
      | Some v \<Rightarrow>
          (case validateFieldType lib field v (assertString (map_of fieldInfo ''type'')) of
             Panic \<Rightarrow> Panic
           | Err err \<Rightarrow> Err err
           | Ok \<Rightarrow>
               if assertString (map_of fieldInfo ''type'') = ''object'' then
                 (case nestedSchemaOf fieldInfo of
                    None \<Rightarrow> Ok
                  | Some ns \<Rightarrow>
                      (case nestedDataOf v of
                         None \<Rightarrow> fieldError field ''must be an object for nested validation''
                       | Some nd \<Rightarrow>
                           (case validateDataAgainstSchema lib nd ns of
                              Panic \<Rightarrow> Panic
                            | Err err \<Rightarrow>
                                Err (''object field '' @ apos @ field @ apos @
                                     '' validation failed: '' @ err)
                            | Ok \<Rightarrow> Ok)))
               else Ok))"
  by (simp add: validateEntry_def assertMap_def Let_def split: option.splits outcome.splits)

declare validateDataAgainstSchema.simps(2) [simp del]

lemma validate_append:
  "validateDataAgainstSchema lib data (s1 @ s2) =
     (case validateDataAgainstSchema lib data s1 of
        Ok \<Rightarrow> validateDataAgainstSchema lib data s2
      | r \<Rightarrow> r)"
proof (induction s1)
  case Nil
  show ?case by simp
next
  case (Cons e s1)
  obtain f fs where e: "e = (f, fs)" by (cases e)
  show ?case
    unfolding e append_Cons validate_Cons [of lib data f fs] using Cons.IH
    by (simp split: outcome.splits)
qed

lemma size_nested_less:
  "nestedSchemaOf fieldInfo = Some ns \<Longrightarrow>
     size (VMap ns) < size (VMap ((f, VMap fieldInfo) # rest))"
  by (drule nestedSchemaOf_size_less) simp

text \<open>The rules that run the validator on a concrete input.\<close>

lemmas run_validate = validate_Cons validateEntry_map validateEntry_not_map
  assertBool_def assertString_def assertMap_def nestedSchemaOf_def nestedDataOf_def
  validateFieldType_def fieldError_def

lemmas run_stdlib = refStdlib_def timeParseModel_def parseIntModel_def isDigit_def
  digitsValue_def isValidISODateString_def layouts_def RFC3339_def RFC3339Nano_def
  eval_nat_numeral

subsection \<open>No panic\<close>

lemma validate_not_Panic: "validateDataAgainstSchema lib data schema \<noteq> Panic"
proof (induction schema arbitrary: data
         rule: measure_induct_rule [where f = "\<lambda>s. size (VMap s)"])
  case (less schema)
  show ?case
  proof (cases schema)
    case Nil
    then show ?thesis by simp
  next
    case (Cons e rest)
    obtain f fs where e: "e = (f, fs)" by (cases e)
    have rest: "validateDataAgainstSchema lib data rest \<noteq> Panic"
      using less.IH [of rest data] Cons by simp
    have entry: "validateEntry lib data f fs \<noteq> Panic"
    proof (cases "\<exists>m. fs = VMap m")
      case False
      then show ?thesis by (simp add: validateEntry_not_map)
    next
      case True
      then obtain info where fs: "fs = VMap info" by blast
      have nested: "validateDataAgainstSchema lib nd ns \<noteq> Panic"
        if "nestedSchemaOf info = Some ns" for nd ns
        using less.IH [of ns nd] size_nested_less [OF that, of f rest] Cons e fs by simp
      show ?thesis
        unfolding fs validateEntry_map
        by (auto simp: fieldError_def validateFieldType_not_Panic nested
                 split: option.splits outcome.splits)
    qed
    show ?thesis
      unfolding Cons e validate_Cons using rest entry by (simp split: outcome.splits)
  qed
qed

lemma outcome_not_Panic: "r \<noteq> Panic \<Longrightarrow> r = Ok \<or> (\<exists>m. r = Err m)"
  by (cases r) simp_all

lemma skip_entry:
  "\<forall>m. fs \<noteq> VMap m \<Longrightarrow>
     validateDataAgainstSchema lib d (s1 @ (g, fs) # s2) =
     validateDataAgainstSchema lib d (s1 @ s2)"
  by (simp add: validate_append validate_Cons validateEntry_not_map split: outcome.splits)

subsection \<open>The fallback of the nested branch\<close>

lemma validateEntry_not_fallback:
  "validateEntry lib data f fs \<noteq> fieldError g ''must be an object for nested validation''"
proof (cases "\<exists>m. fs = VMap m")
  case False
  then show ?thesis by (simp add: validateEntry_not_map fieldError_def)
next
  case True
  then obtain info where fs: "fs = VMap info" by blast
  show ?thesis
  proof (cases "map_of data f")
    case None
    then show ?thesis by (simp add: fs validateEntry_map fieldError_def)
  next
    case (Some v)
    show ?thesis
    proof (cases "validateFieldType lib f v (assertString (map_of info ''type''))")
      case Panic
      then show ?thesis by (simp add: fs validateEntry_map Some fieldError_def)
    next
      case (Err e)
      have "take 2 (rev e) \<noteq> ''no''"
        using validateFieldType_tail [of lib f v "assertString (map_of info ''type'')"] Err
        by simp
      then show ?thesis by (auto simp: fs validateEntry_map Some Err fieldError_def)
    next
      case Ok
      show ?thesis
      proof (cases "assertString (map_of info ''type'') = ''object''")
        case False
        then show ?thesis by (simp add: fs validateEntry_map Some Ok fieldError_def)
      next
        case True
        with Ok have ok: "validateFieldType lib f v ''object'' = Ok" by simp
        then obtain m where v: "v = VMap m" using validateFieldType_object by auto
        show ?thesis
          using ok
          by (simp add: fs validateEntry_map Some True v nestedDataOf_def fieldError_def
                   split: option.splits outcome.splits)
      qed
    qed
  qed
qed

lemma validate_not_fallback:
  "validateDataAgainstSchema lib data schema \<noteq>
     fieldError g ''must be an object for nested validation''"
proof (induction schema)
  case Nil
  show ?case by (simp add: fieldError_def)
next
  case (Cons e schema)
  obtain f fs where e: "e = (f, fs)" by (cases e)
  show ?case
    unfolding e validate_Cons
    using Cons.IH validateEntry_not_fallback [of lib data f fs g]
    by (cases "validateEntry lib data f fs") (simp_all add: fieldError_def)
qed

subsection \<open>Only the declared fields are read\<close>

lemma validateEntry_cong:
  "map_of d f = map_of d' f \<Longrightarrow> validateEntry lib d f fs = validateEntry lib d' f fs"
proof (cases "\<exists>m. fs = VMap m")
  case False
  then show ?thesis by (simp add: validateEntry_not_map)
next
  case True
  assume "map_of d f = map_of d' f"
  with True show ?thesis by (auto simp: validateEntry_map)
qed

lemma validate_agree:
  "\<forall>f \<in> fst ` set schema. map_of d f = map_of d' f \<Longrightarrow>
     validateDataAgainstSchema lib d schema = validateDataAgainstSchema lib d' schema"
proof (induction schema)
  case Nil
  show ?case by simp
next
  case (Cons e schema)
  obtain f fs where e: "e = (f, fs)" by (cases e)
  have entry: "validateEntry lib d f fs = validateEntry lib d' f fs"
    using Cons.prems e by (intro validateEntry_cong) simp
  have rest: "validateDataAgainstSchema lib d schema = validateDataAgainstSchema lib d' schema"
    using Cons by simp
  show ?case by (simp only: e validate_Cons entry rest)
qed

subsection \<open>Missing fields and nested objects\<close>

lemma missing_field:
  assumes "validateDataAgainstSchema lib d s1 = Ok" and "map_of d f = None"
  shows "(map_of info ''required'' = Some (VBool True) \<longrightarrow>
            validateDataAgainstSchema lib d (s1 @ (f, VMap info) # s2) =
              Err (''required field '' @ apos @ f @ apos @ '' is missing'')) \<and>
         (map_of info ''required'' \<noteq> Some (VBool True) \<longrightarrow>
            validateDataAgainstSchema lib d (s1 @ (f, VMap info) # s2) =
              validateDataAgainstSchema lib d s2)"
  using assms
  by (simp add: validate_append validate_Cons validateEntry_map assertBool_iff)

lemma nested_object:
  assumes "validateDataAgainstSchema lib d s1 = Ok"
    and "map_of info ''type'' = Some (VString ''object'')"
    and "map_of d f = Some (VMap nd)"
    and "map_of info ''properties'' = Some (VMap ns) \<or>
         (\<forall>ps. map_of info ''properties'' \<noteq> Some (VMap ps)) \<and>
         map_of info ''schema'' = Some (VMap ns)"
  shows "validateDataAgainstSchema lib d (s1 @ (f, VMap info) # s2) =
           (case validateDataAgainstSchema lib nd ns of
              Ok \<Rightarrow> validateDataAgainstSchema lib d s2
            | Err err \<Rightarrow>
                Err (''object field '' @ apos @ f @ apos @ '' validation failed: '' @ err)
            | Panic \<Rightarrow> Panic)"
proof -
  have ns: "nestedSchemaOf info = Some ns"
    using assms(4) nestedSchemaOf_properties nestedSchemaOf_schema by blast
  have ty: "assertString (map_of info ''type'') = ''object''"
    using assms(2) by (simp add: assertString_def)
  have ok: "validateFieldType lib f (VMap nd) ''object'' = Ok"
    by (simp add: validateFieldType_object)
  show ?thesis
    using assms(1,3)
    by (simp add: validate_append validate_Cons validateEntry_map ns ty ok nestedDataOf_def
             split: outcome.splits)
qed

subsection \<open>Conforming data\<close>

lemma spec_required_eq: "spec_required node = assertBool (map_of node ''required'')"
  by (simp add: spec_required_def assertBool_def)

lemma spec_kind_eq: "spec_kind node = Some k \<Longrightarrow> assertString (map_of node ''type'') = k"
  by (auto simp: spec_kind_def assertString_def split: option.splits val.splits)

lemma spec_nested_eq: "spec_nested node = nestedSchemaOf node"
  by (auto simp: spec_nested_def nestedSchemaOf_def assertMap_def
           split: option.splits val.splits)

lemma satisfies_Ok:
  "spec_satisfies lib d schema \<Longrightarrow> validateDataAgainstSchema lib d schema = Ok"
proof (induction schema arbitrary: d
         rule: measure_induct_rule [where f = "\<lambda>s. size (VMap s)"])
  case (less schema)
  show ?case
  proof (cases schema)
    case Nil
    then show ?thesis by simp
  next
    case (Cons e rest)
    obtain f fs where e: "e = (f, fs)" by (cases e)
    from less.prems have sat_rest: "spec_satisfies lib d rest"
      by (simp add: Cons e)
    have rest: "validateDataAgainstSchema lib d rest = Ok"
      using less.IH [of rest d] sat_rest Cons by simp
    have entry: "validateEntry lib d f fs = Ok"
    proof (cases "\<exists>m. fs = VMap m")
      case False
      then show ?thesis by (simp add: validateEntry_not_map)
    next
      case True
      then obtain info where fs: "fs = VMap info" by blast
      show ?thesis
      proof (cases "map_of d f")
        case None
        with less.prems show ?thesis
          by (simp add: Cons e fs validateEntry_map spec_required_eq)
      next
        case (Some v)
        note present = this
        with less.prems obtain k where k: "spec_kind info = Some k"
          and cl: "spec_classify lib v k"
          and nest: "k = ''object'' \<Longrightarrow> spec_nested info = Some ns \<Longrightarrow>
                       \<exists>nd. v = VMap nd \<and> spec_satisfies lib nd ns" for ns
          by (auto simp: Cons e fs split: option.splits val.splits if_splits)
        have ty: "assertString (map_of info ''type'') = k"
          using k by (rule spec_kind_eq)
        have ok: "validateFieldType lib f v k = Ok"
          using cl classify_Ok by blast
        show ?thesis
        proof (cases "k = ''object''")
          case False
          then show ?thesis by (simp add: fs validateEntry_map present ty ok)
        next
          case True
          show ?thesis
          proof (cases "nestedSchemaOf info")
            case None
            then show ?thesis by (simp add: fs validateEntry_map present ty ok)
          next
            case (Some ns)
            then obtain nd where v: "v = VMap nd" and sat: "spec_satisfies lib nd ns"
              using nest [OF True, of ns] by (auto simp: spec_nested_eq)
            have "validateDataAgainstSchema lib nd ns = Ok"
              using less.IH [of ns nd] size_nested_less [OF Some, of f rest] sat Cons e fs
              by simp
            then show ?thesis
              using ok
              by (simp add: fs validateEntry_map present ty True Some v nestedDataOf_def)
          qed
        qed
      qed
    qed
    show ?thesis
      unfolding Cons e validate_Cons by (simp add: entry rest)
  qed
qed

section \<open>The claims\<close>

text \<open>
  C1. For every schema and every data object that supplies, for each field the schema
  declares, a value of the declared kind (and, for an object with a nested schema, a value
  that satisfies the nested schema), validation returns no error. The hypothesis
  \<open>spec_satisfies\<close> asks for less than the claim does: a field that is not required may be
  absent, and the constraints beyond the kind are not needed.
\<close>

theorem satisfying_data_is_accepted:
  "spec_satisfies lib d schema \<Longrightarrow> validateDataAgainstSchema lib d schema = Ok"
  by (rule satisfies_Ok)

theorem satisfying_data_is_accepted_witness:
  "spec_satisfies refStdlib validLead leadSchema \<and>
   validateDataAgainstSchema refStdlib validLead leadSchema = Ok"
proof -
  have h: "spec_satisfies refStdlib validLead leadSchema"
    by (simp add: validLead_def leadSchema_def nameEntry_def ageEntry_def interestsEntry_def
          userInfoEntry_def datesEntries_def spec_kind_def spec_required_def spec_nested_def
          spec_classify_def spec_isInteger_def spec_isFloat_def spec_isNativeTemporal_def
          spec_matchesLayout_def
          run_stdlib)
  show ?thesis
    using h satisfying_data_is_accepted [OF h] by simp
qed

text \<open>
  C2. When the entries visited before the entry of field \<open>f\<close> pass and the data object has
  no field \<open>f\<close>: if the entry marks \<open>f\<close> as required, validation fails with the message
  \<^verbatim>\<open>required field 'f' is missing\<close>; if it does not, the entry is skipped and the
  result is that of the remaining entries. The witness is the scenario of the
  specification, in both orders of iteration, and a data object without the optional field.
\<close>

theorem missing_required_field:
  assumes "validateDataAgainstSchema lib d s1 = Ok" and "map_of d f = None"
  shows "(map_of info ''required'' = Some (VBool True) \<longrightarrow>
            validateDataAgainstSchema lib d (s1 @ (f, VMap info) # s2) =
              Err (''required field '' @ apos @ f @ apos @ '' is missing'')) \<and>
         (map_of info ''required'' \<noteq> Some (VBool True) \<longrightarrow>
            validateDataAgainstSchema lib d (s1 @ (f, VMap info) # s2) =
              validateDataAgainstSchema lib d s2)"
  using assms by (rule missing_field)

theorem missing_required_field_witness:
  "validateDataAgainstSchema refStdlib [(''age'', VFloat64 25)] [nameEntry, ageEntry] =
     Err (''required field '' @ apos @ ''name'' @ apos @ '' is missing'') \<and>
   validateDataAgainstSchema refStdlib [(''age'', VFloat64 25)] [ageEntry, nameEntry] =
     Err (''required field '' @ apos @ ''name'' @ apos @ '' is missing'') \<and>
   validateDataAgainstSchema refStdlib [(''name'', VString ''Jane'')] [nameEntry, ageEntry] = Ok"
proof -
  have e: "validateDataAgainstSchema refStdlib [(''age'', VFloat64 25)] [] = Ok"
    by simp
  have a: "validateDataAgainstSchema refStdlib [(''age'', VFloat64 25)] [ageEntry] = Ok"
    by (simp add: ageEntry_def run_validate)
  have b: "validateDataAgainstSchema refStdlib [(''name'', VString ''Jane'')] [nameEntry] = Ok"
    by (simp add: nameEntry_def run_validate)
  have n: "map_of [(''age'', VFloat64 25)] ''name'' = None"
    by simp
  have m: "map_of [(''name'', VString ''Jane'')] ''age'' = None"
    by simp
  show ?thesis
    using missing_required_field [OF e n,
            of "[(''type'', VString ''string''), (''required'', VBool True)]" "[ageEntry]"]
      missing_required_field [OF a n,
            of "[(''type'', VString ''string''), (''required'', VBool True)]" "[]"]
      missing_required_field [OF b m,
            of "[(''type'', VString ''number''), (''required'', VBool False),
                 (''minimum'', VFloat64 0)]" "[]"]
    by (simp add: nameEntry_def ageEntry_def)
qed

text \<open>
  C3. The claim asks for a constraint violation on \<^verbatim>\<open>age\<close> when the schema declares
  \<^verbatim>\<open>minimum\<close> 0 and the data holds -5. The validator never reads \<^verbatim>\<open>minimum\<close> (nor
  \<^verbatim>\<open>maximum\<close>, \<^verbatim>\<open>pattern\<close>, \<^verbatim>\<open>minLength\<close>, \<^verbatim>\<open>maxLength\<close>): in either order of iteration
  the scenario of the specification validates without error.
\<close>

theorem minimum_is_not_enforced:
  "validateDataAgainstSchema refStdlib
     [(''name'', VString ''Jane''), (''age'', VFloat64 (- 5))] [nameEntry, ageEntry] = Ok \<and>
   validateDataAgainstSchema refStdlib
     [(''name'', VString ''Jane''), (''age'', VFloat64 (- 5))] [ageEntry, nameEntry] = Ok"
  by (simp add: nameEntry_def ageEntry_def run_validate)

text \<open>
  C4. The claim asks for an error that names index 2 when \<^verbatim>\<open>["tech", "sales", 42]\<close> is
  validated against \<^verbatim>\<open>items: "string"\<close>. The validator checks that the value is a slice and
  never reads \<^verbatim>\<open>items\<close>: the array validates without error.
\<close>

theorem array_items_are_not_validated:
  "validateDataAgainstSchema refStdlib
     [(''interests'', VSlice [VString ''tech'', VString ''sales'', VFloat64 42])]
     [interestsEntry] = Ok"
  by (simp add: interestsEntry_def run_validate)

text \<open>
  C5. The claim asks that a malformed schema is rejected when a product is created.
  \<^verbatim>\<open>CreateProduct\<close> copies the schema of the request into the product and inserts it without
  looking at it: on an empty collection the malformed schema is stored and returned.
\<close>

theorem malformed_schema_is_persisted:
  "CreateProduct \<lparr> productCollection = [] \<rparr> ''64f8b1a2'' 0 0
     \<lparr> reqName = ''P'', reqDescription = '''', reqSchema = malformedSchema \<rparr> =
   (Inr \<lparr> respID = ''64f8b1a2'', respName = ''P'', respDescription = '''',
          respSchema = malformedSchema, respCreatedAt = 0, respUpdatedAt = 0 \<rparr>,
    \<lparr> productCollection =
        [\<lparr> ID = ''64f8b1a2'', Name = ''P'', Description = '''', Schema = malformedSchema,
           CreatedAt = 0, UpdatedAt = 0 \<rparr>] \<rparr>)"
  by (simp add: CreateProduct_def InsertOne_def)

text \<open>
  C6. For an entry of type \<^verbatim>\<open>object\<close> whose nested schema \<open>ns\<close> is the mapping under
  \<^verbatim>\<open>properties\<close>, or the mapping under \<^verbatim>\<open>schema\<close> when \<^verbatim>\<open>properties\<close> holds no mapping, and
  a data value that is an object \<open>nd\<close>: once the entries visited before pass, validation
  validates \<open>nd\<close> against \<open>ns\<close>; when that succeeds it goes on with the remaining entries,
  and when that fails with a message it returns
  \<^verbatim>\<open>object field 'f' validation failed: \<close> followed by the message. In particular a
  required field of the nested schema that \<open>nd\<close> lacks gives the wrapped
  missing-required-field message.
\<close>

theorem nested_object_validation:
  assumes "validateDataAgainstSchema lib d s1 = Ok"
    and "map_of info ''type'' = Some (VString ''object'')"
    and "map_of d f = Some (VMap nd)"
    and "map_of info ''properties'' = Some (VMap ns) \<or>
         (\<forall>ps. map_of info ''properties'' \<noteq> Some (VMap ps)) \<and>
         map_of info ''schema'' = Some (VMap ns)"
  shows "(validateDataAgainstSchema lib nd ns = Ok \<longrightarrow>
            validateDataAgainstSchema lib d (s1 @ (f, VMap info) # s2) =
              validateDataAgainstSchema lib d s2) \<and>
         (\<forall>err. validateDataAgainstSchema lib nd ns = Err err \<longrightarrow>
            validateDataAgainstSchema lib d (s1 @ (f, VMap info) # s2) =
              Err (''object field '' @ apos @ f @ apos @ '' validation failed: '' @ err)) \<and>
         (\<forall>n1 g ginfo n2.
            ns = n1 @ (g, VMap ginfo) # n2 \<and>
            validateDataAgainstSchema lib nd n1 = Ok \<and> map_of nd g = None \<and>
            map_of ginfo ''required'' = Some (VBool True) \<longrightarrow>
            validateDataAgainstSchema lib d (s1 @ (f, VMap info) # s2) =
              Err (''object field '' @ apos @ f @ apos @ '' validation failed: '' @
                   ''required field '' @ apos @ g @ apos @ '' is missing''))"
proof -
  note step = nested_object [OF assms, of s2]
  have inner: "validateDataAgainstSchema lib nd ns =
                 Err (''required field '' @ apos @ g @ apos @ '' is missing'')"
    if "ns = n1 @ (g, VMap ginfo) # n2" "validateDataAgainstSchema lib nd n1 = Ok"
       "map_of nd g = None" "map_of ginfo ''required'' = Some (VBool True)"
    for n1 g ginfo n2
    using missing_field [OF that(2,3), of ginfo n2] that(1,4) by simp
  show ?thesis
  proof (intro conjI allI impI)
    assume "validateDataAgainstSchema lib nd ns = Ok"
    then show "validateDataAgainstSchema lib d (s1 @ (f, VMap info) # s2) =
                 validateDataAgainstSchema lib d s2"
      using step by simp
  next
    fix err
    assume "validateDataAgainstSchema lib nd ns = Err err"
    then show "validateDataAgainstSchema lib d (s1 @ (f, VMap info) # s2) =
                 Err (''object field '' @ apos @ f @ apos @ '' validation failed: '' @ err)"
      using step by simp
  next
    fix n1 g ginfo n2
    assume "ns = n1 @ (g, VMap ginfo) # n2 \<and>
            validateDataAgainstSchema lib nd n1 = Ok \<and> map_of nd g = None \<and>
            map_of ginfo ''required'' = Some (VBool True)"
    then have "validateDataAgainstSchema lib nd ns =
                 Err (''required field '' @ apos @ g @ apos @ '' is missing'')"
      using inner by blast
    then show "validateDataAgainstSchema lib d (s1 @ (f, VMap info) # s2) =
                 Err (''object field '' @ apos @ f @ apos @ '' validation failed: '' @
                      ''required field '' @ apos @ g @ apos @ '' is missing'')"
      using step by simp
  qed
qed

theorem nested_object_validation_witness:
  "validateDataAgainstSchema refStdlib [(''user_info'', VMap [(''last_name'', VString ''Doe'')])]
     [(''user_info'',
       VMap [(''type'', VString ''object''), (''required'', VBool True),
             (''schema'', VMap [(''last_name'', VMap [(''type'', VString ''boolean'')])]),
             (''properties'',
              VMap [(''first_name'',
                     VMap [(''type'', VString ''string''), (''required'', VBool True)])])])] =
     Err (''object field '' @ apos @ ''user_info'' @ apos @ '' validation failed: '' @
          ''required field '' @ apos @ ''first_name'' @ apos @ '' is missing'') \<and>
   validateDataAgainstSchema refStdlib [(''prefs'', VMap [(''emails'', VString ''yes'')])]
     [(''prefs'',
       VMap [(''type'', VString ''object''), (''required'', VBool False),
             (''schema'',
              VMap [(''emails'',
                     VMap [(''type'', VString ''boolean''), (''required'', VBool True)])])])] =
     Err (''object field '' @ apos @ ''prefs'' @ apos @ '' validation failed: '' @
          ''field '' @ apos @ ''emails'' @ apos @ '' must be a boolean'') \<and>
   validateDataAgainstSchema refStdlib [(''prefs'', VMap [(''emails'', VBool True)])]
     [(''prefs'',
       VMap [(''type'', VString ''object''), (''required'', VBool False),
             (''schema'',
              VMap [(''emails'',
                     VMap [(''type'', VString ''boolean''), (''required'', VBool True)])])])] =
     Ok"
proof -
  let ?first = "[(''type'', VString ''string''), (''required'', VBool True)]"
  let ?props = "[(''first_name'', VMap ?first)]"
  let ?other = "[(''last_name'', VMap [(''type'', VString ''boolean'')])]"
  let ?info = "[(''type'', VString ''object''), (''required'', VBool True),
                (''schema'', VMap ?other), (''properties'', VMap ?props)]"
  let ?nd = "[(''last_name'', VString ''Doe'')]"
  let ?d = "[(''user_info'', VMap ?nd)]"
  let ?emails = "[(''type'', VString ''boolean''), (''required'', VBool True)]"
  let ?sch = "[(''emails'', VMap ?emails)]"
  let ?pinfo = "[(''type'', VString ''object''), (''required'', VBool False),
                 (''schema'', VMap ?sch)]"
  let ?bad = "[(''emails'', VString ''yes'')]"
  let ?good = "[(''emails'', VBool True)]"
  have e: "validateDataAgainstSchema refStdlib x [] = Ok" for x
    by simp
  have t1: "map_of ?info ''type'' = Some (VString ''object'')"
    by simp
  have v1: "map_of ?d ''user_info'' = Some (VMap ?nd)"
    by simp
  have n1: "map_of ?info ''properties'' = Some (VMap ?props) \<or>
            (\<forall>ps. map_of ?info ''properties'' \<noteq> Some (VMap ps)) \<and>
            map_of ?info ''schema'' = Some (VMap ?props)"
    by simp
  have t2: "map_of ?pinfo ''type'' = Some (VString ''object'')"
    by simp
  have v2: "map_of [(''prefs'', VMap ?bad)] ''prefs'' = Some (VMap ?bad)"
    by simp
  have v3: "map_of [(''prefs'', VMap ?good)] ''prefs'' = Some (VMap ?good)"
    by simp
  have n2: "map_of ?pinfo ''properties'' = Some (VMap ?sch) \<or>
            (\<forall>ps. map_of ?pinfo ''properties'' \<noteq> Some (VMap ps)) \<and>
            map_of ?pinfo ''schema'' = Some (VMap ?sch)"
    by simp
  have r2: "validateDataAgainstSchema refStdlib ?bad ?sch =
              Err (''field '' @ apos @ ''emails'' @ apos @ '' must be a boolean'')"
    by (simp add: run_validate)
  have r3: "validateDataAgainstSchema refStdlib ?good ?sch = Ok"
    by (simp add: run_validate)
  have c1: "?props = [] @ (''first_name'', VMap ?first) # [] \<and>
            validateDataAgainstSchema refStdlib ?nd [] = Ok \<and>
            map_of ?nd ''first_name'' = None \<and>
            map_of ?first ''required'' = Some (VBool True)"
    by simp
  have w1: "validateDataAgainstSchema refStdlib ?d ([] @ (''user_info'', VMap ?info) # []) =
              Err (''object field '' @ apos @ ''user_info'' @ apos @ '' validation failed: '' @
                   ''required field '' @ apos @ ''first_name'' @ apos @ '' is missing'')"
    using nested_object_validation [OF e t1 v1 n1, of "[]",
            THEN conjunct2, THEN conjunct2, rule_format, OF c1] .
  have w2: "validateDataAgainstSchema refStdlib [(''prefs'', VMap ?bad)]
              ([] @ (''prefs'', VMap ?pinfo) # []) =
              Err (''object field '' @ apos @ ''prefs'' @ apos @ '' validation failed: '' @
                   (''field '' @ apos @ ''emails'' @ apos @ '' must be a boolean''))"
    using nested_object_validation [OF e t2 v2 n2, of "[]",
            THEN conjunct2, THEN conjunct1, rule_format, OF r2] .
  have w3: "validateDataAgainstSchema refStdlib [(''prefs'', VMap ?good)]
              ([] @ (''prefs'', VMap ?pinfo) # []) =
              validateDataAgainstSchema refStdlib [(''prefs'', VMap ?good)] []"
    using nested_object_validation [OF e t2 v3 n2, of "[]",
            THEN conjunct1, rule_format, OF r3] .
  show ?thesis
    using w1 w2 w3 by simp
qed

text \<open>
  C7. A value classifies as a \<^verbatim>\<open>date\<close> exactly when it is a native temporal value
  (\<^verbatim>\<open>time.Time\<close> or \<^verbatim>\<open>primitive.DateTime\<close>) or a string that \<^verbatim>\<open>time.Parse\<close> accepts under
  one of the six layouts; every other value is a mismatch, reported as an error. For the
  strings of the claim: the two ISO strings are accepted as soon as \<^verbatim>\<open>time.Parse\<close> accepts
  them under the layout they are written in, and \<^verbatim>\<open>08/09/2024\<close> is rejected as soon as
  \<^verbatim>\<open>time.Parse\<close> rejects it under each layout. The witness runs them on the reference
  instance of the standard library.
\<close>

theorem date_classification:
  "(validateFieldType lib f v ''date'' = Ok \<longleftrightarrow>
      (\<exists>t. v = VTime t) \<or> (\<exists>t. v = VDateTime t) \<or>
      (\<exists>s. v = VString s \<and>
         (\<exists>layout \<in> set [''2006-01-02T15:04:05Z07:00'',
                           ''2006-01-02T15:04:05.999999999Z07:00'',
                           ''2006-01-02'',
                           ''2006-01-02 15:04:05'',
                           ''2006-01-02T15:04:05'',
                           ''2006-01-02T15:04:05Z07:00'']. time_Parse lib layout s))) \<and>
   (validateFieldType lib f v ''date'' \<noteq> Ok \<longrightarrow>
      (\<exists>m. validateFieldType lib f v ''date'' = Err m)) \<and>
   (time_Parse lib ''2006-01-02T15:04:05Z07:00'' ''2024-08-09T12:00:00Z'' \<longrightarrow>
      validateFieldType lib f (VString ''2024-08-09T12:00:00Z'') ''date'' = Ok) \<and>
   (time_Parse lib ''2006-01-02'' ''2024-08-09'' \<longrightarrow>
      validateFieldType lib f (VString ''2024-08-09'') ''date'' = Ok) \<and>
   ((\<forall>layout \<in> set [''2006-01-02T15:04:05Z07:00'',
                      ''2006-01-02T15:04:05.999999999Z07:00'',
                      ''2006-01-02'',
                      ''2006-01-02 15:04:05'',
                      ''2006-01-02T15:04:05'',
                      ''2006-01-02T15:04:05Z07:00'']. \<not> time_Parse lib layout ''08/09/2024'') \<longrightarrow>
      validateFieldType lib f (VString ''08/09/2024'') ''date'' =
        Err (''field '' @ apos @ f @ apos @
             '' must be a valid ISO date string (e.g., RFC3339)''))"
proof -
  have total: "validateFieldType lib f v ''date'' = Ok \<or>
        (\<exists>m. validateFieldType lib f v ''date'' = Err m)"
    using validateFieldType_not_Panic by (rule outcome_not_Panic)
  have str: "validateFieldType lib f (VString s) ''date'' =
               (if isValidISODateString lib s then Ok
                else Err (''field '' @ apos @ f @ apos @
                          '' must be a valid ISO date string (e.g., RFC3339)''))" for s
    by (simp add: validateFieldType_def fieldError_def)
  have general: "validateFieldType lib f v ''date'' = Ok \<longleftrightarrow>
      (\<exists>t. v = VTime t) \<or> (\<exists>t. v = VDateTime t) \<or>
      (\<exists>s. v = VString s \<and>
         (\<exists>layout \<in> set [''2006-01-02T15:04:05Z07:00'',
                           ''2006-01-02T15:04:05.999999999Z07:00'',
                           ''2006-01-02'',
                           ''2006-01-02 15:04:05'',
                           ''2006-01-02T15:04:05'',
                           ''2006-01-02T15:04:05Z07:00'']. time_Parse lib layout s))"
    unfolding validateFieldType_date isValidISODateString_iff layouts_def RFC3339_def
      RFC3339Nano_def
    by (rule refl)
  have examples:
    "time_Parse lib ''2006-01-02T15:04:05Z07:00'' ''2024-08-09T12:00:00Z'' \<longrightarrow>
       validateFieldType lib f (VString ''2024-08-09T12:00:00Z'') ''date'' = Ok"
    "time_Parse lib ''2006-01-02'' ''2024-08-09'' \<longrightarrow>
       validateFieldType lib f (VString ''2024-08-09'') ''date'' = Ok"
    "(\<forall>layout \<in> set [''2006-01-02T15:04:05Z07:00'',
                      ''2006-01-02T15:04:05.999999999Z07:00'',
                      ''2006-01-02'',
                      ''2006-01-02 15:04:05'',
                      ''2006-01-02T15:04:05'',
                      ''2006-01-02T15:04:05Z07:00'']. \<not> time_Parse lib layout ''08/09/2024'') \<longrightarrow>
       validateFieldType lib f (VString ''08/09/2024'') ''date'' =
         Err (''field '' @ apos @ f @ apos @
              '' must be a valid ISO date string (e.g., RFC3339)'')"
    unfolding str isValidISODateString_iff layouts_def RFC3339_def RFC3339Nano_def
    by simp_all
  show ?thesis
    using general total examples by blast
qed

theorem date_classification_witness:
  "validateFieldType refStdlib ''signup_date'' (VString ''2024-08-09T12:00:00Z'') ''date'' = Ok \<and>
   validateFieldType refStdlib ''signup_date'' (VString ''2024-08-09'') ''date'' = Ok \<and>
   validateFieldType refStdlib ''signup_date'' (VTime 0) ''date'' = Ok \<and>
   validateFieldType refStdlib ''signup_date'' (VDateTime 0) ''date'' = Ok \<and>
   validateFieldType refStdlib ''signup_date'' (VString ''08/09/2024'') ''date'' =
     Err (''field '' @ apos @ ''signup_date'' @ apos @
          '' must be a valid ISO date string (e.g., RFC3339)'')"
  using date_classification [of refStdlib "''signup_date''" "VTime 0"]
    date_classification [of refStdlib "''signup_date''" "VDateTime 0"]
  by (simp add: refStdlib_def timeParseModel_def isDigit_def eval_nat_numeral)

text \<open>
  C8. The validator never panics: \<open>validateFieldType\<close> returns no error or an error for
  every value and every expected type, \<open>validateDataAgainstSchema\<close> returns no error or an
  error for every data object and every schema, and a schema entry whose value is not a
  mapping is skipped, so that the result is that of the schema without the entry.
\<close>

theorem validator_is_total:
  "(validateFieldType lib f v k = Ok \<or> (\<exists>m. validateFieldType lib f v k = Err m)) \<and>
   (validateDataAgainstSchema lib d schema = Ok \<or>
      (\<exists>m. validateDataAgainstSchema lib d schema = Err m)) \<and>
   ((\<forall>m. fs \<noteq> VMap m) \<longrightarrow>
      validateDataAgainstSchema lib d (s1 @ (g, fs) # s2) =
      validateDataAgainstSchema lib d (s1 @ s2))"
  using outcome_not_Panic [OF validateFieldType_not_Panic, of lib f v k]
    outcome_not_Panic [OF validate_not_Panic, of lib d schema]
    skip_entry [of fs lib d s1 g s2]
  by blast

theorem validator_is_total_witness:
  "(\<forall>m. VSlice [VString ''string'', VBool True] \<noteq> VMap m) \<and>
   validateDataAgainstSchema refStdlib [(''name'', VString ''Jane'')]
     ([nameEntry] @ (''tags'', VSlice [VString ''string'', VBool True]) # [ageEntry]) =
   validateDataAgainstSchema refStdlib [(''name'', VString ''Jane'')] ([nameEntry] @ [ageEntry])"
  using validator_is_total [of refStdlib "''x''" VNil "''array''" "[(''name'', VString ''Jane'')]"
          "[]" "VSlice [VString ''string'', VBool True]" "[nameEntry]" "''tags''" "[ageEntry]"]
  by simp

text \<open>
  C9. The result depends on the data object only through the fields the schema names: two
  data objects that agree on every field named in the schema get the same result. The
  witness adds a field the schema does not declare, which changes nothing.
\<close>

theorem undeclared_fields_are_ignored:
  "\<forall>f \<in> fst ` set schema. map_of d f = map_of d' f \<Longrightarrow>
     validateDataAgainstSchema lib d schema = validateDataAgainstSchema lib d' schema"
  by (rule validate_agree)

theorem undeclared_fields_are_ignored_witness:
  "validateDataAgainstSchema refStdlib [(''name'', VString ''Alice'')] [nameEntry, ageEntry] =
   validateDataAgainstSchema refStdlib
     [(''nickname'', VString ''ally''), (''name'', VString ''Alice'')] [nameEntry, ageEntry]"
proof -
  have h: "\<forall>f \<in> fst ` set [nameEntry, ageEntry].
      map_of [(''name'', VString ''Alice'')] f =
      map_of [(''nickname'', VString ''ally''), (''name'', VString ''Alice'')] f"
    by (simp add: nameEntry_def ageEntry_def)
  show ?thesis
    using undeclared_fields_are_ignored [OF h, of refStdlib] .
qed

text \<open>
  C10. When the type check for \<^verbatim>\<open>object\<close> has succeeded the value is a
  \<^verbatim>\<open>map[string]interface{}\<close>, so the nested branch always finds its data, and validation
  never returns the message \<^verbatim>\<open>field 'g' must be an object for nested validation\<close>, for
  any field name \<open>g\<close>.
\<close>

theorem nested_fallback_is_unreachable:
  "(validateFieldType lib f v ''object'' = Ok \<longrightarrow> nestedDataOf v \<noteq> None) \<and>
   validateDataAgainstSchema lib d schema \<noteq>
     Err (''field '' @ apos @ g @ apos @ '' must be an object for nested validation'')"
proof
  show "validateFieldType lib f v ''object'' = Ok \<longrightarrow> nestedDataOf v \<noteq> None"
    by (auto simp: validateFieldType_object nestedDataOf_def)
  show "validateDataAgainstSchema lib d schema \<noteq>
          Err (''field '' @ apos @ g @ apos @ '' must be an object for nested validation'')"
    using validate_not_fallback [of lib d schema g] by (simp add: fieldError_def)
qed

theorem nested_fallback_is_unreachable_witness:
  "validateFieldType refStdlib ''user_info'' (VMap []) ''object'' = Ok \<and>
   nestedDataOf (VMap []) \<noteq> None"
proof -
  have h: "validateFieldType refStdlib ''user_info'' (VMap []) ''object'' = Ok"
    by (simp add: validateFieldType_def)
  show ?thesis
    using h nested_fallback_is_unreachable [of refStdlib "''user_info''" "VMap []"] by simp
qed

end
